theory Spec2Isabelle
  imports Complex_Main
begin

section \<open>Python values, exceptions and list indexing\<close>

text \<open>
  The notebook's class \<^verbatim>\<open>ImageVectorizer\<close> is embedded function by function. An exception
  that leaves a method is \<open>Inl\<close> of a \<open>py_error\<close>; a normal return is \<open>Inr\<close> of the returned
  value, where Python's \<^verbatim>\<open>None\<close> is \<open>None\<close>. Floating-point numbers are read as reals, with
  one extra value for NaN (type \<open>score\<close> below); rounding is not modelled.
\<close>

datatype py_error =
    NameError string
  | KeyError string
  | ValueError
  | IndexError
  | OSError
  | ConnectionError

type_synonym url = string
type_synonym bytes = string
type_synonym vec = "real list"

text \<open>\<^verbatim>\<open>xs[i]\<close> on a Python list: a negative index counts from the end, anything else
  outside the list raises \<^verbatim>\<open>IndexError\<close>.\<close>

definition py_index :: "'a list \<Rightarrow> int \<Rightarrow> py_error + 'a" where
  "py_index xs i =
     (if 0 \<le> i \<and> i < int (length xs) then Inr (xs ! nat i)
      else if i < 0 \<and> - int (length xs) \<le> i then Inr (xs ! nat (int (length xs) + i))
      else Inl IndexError)"

section \<open>The collaborators outside the notebook\<close>

text \<open>
  What \<^verbatim>\<open>requests.get(url, stream=True)\<close> hands back: the status code, the headers and
  the chunks that \<^verbatim>\<open>iter_content()\<close> yields.
\<close>

record response =
  status_code :: int
  headers :: "string \<rightharpoonup> string"
  iter_content :: "bytes list"

text \<open>
  The libraries the class calls are parameters of the model: the transport, Python's
  \<^verbatim>\<open>int\<close> on a header value, keras' \<^verbatim>\<open>image.load_img\<close> on the downloaded bytes (with
  \<^verbatim>\<open>target_size=(224,224)\<close>) and \<^verbatim>\<open>image.img_to_array\<close>, and the default network
  \<^verbatim>\<open>keras.applications.vgg16\<close>: the \<^verbatim>\<open>predict\<close> of the \<^verbatim>\<open>VGG16\<close> model and its
  \<^verbatim>\<open>preprocess_input\<close>. A model is used through \<^verbatim>\<open>predict\<close> only, so it is that function,
  from a batch of pixel arrays to the batch of their vectors.
\<close>

record ('i, 'a) env =
  requests_get :: "url \<Rightarrow> py_error + response"
  py_int :: "string \<Rightarrow> py_error + int"
  load_img :: "bytes \<Rightarrow> py_error + 'i"
  img_to_array :: "'i \<Rightarrow> 'a"
  VGG16 :: "'a list \<Rightarrow> vec list"
  vgg16_preprocess_input :: "'a list \<Rightarrow> 'a list"

section \<open>The class ImageVectorizer\<close>

record 'a ImageVectorizer =
  model :: "'a list \<Rightarrow> vec list"
  preprocess :: "'a list \<Rightarrow> 'a list"
  img_links :: "url list"
  img_vectors :: "vec list"
  img_titles :: "string list"

subsection \<open>Construction\<close>

text \<open>
  \<^verbatim>\<open>__init__(self, model=None, preprocess=None)\<close>. When \<^verbatim>\<open>preprocess\<close> is given, the
  constructor assigns the name \<^verbatim>\<open>preprocess_fn\<close>, which is neither a parameter nor a local:
  Python looks it up among the globals, here \<open>globals\<close> (restricted to the names bound to
  preprocessing functions), and raises \<^verbatim>\<open>NameError\<close> when it is not bound.
\<close>

definition init ::
  "('i, 'a) env \<Rightarrow> (string \<rightharpoonup> ('a list \<Rightarrow> 'a list)) \<Rightarrow> ('a list \<Rightarrow> vec list) option \<Rightarrow>
   ('a list \<Rightarrow> 'a list) option \<Rightarrow> py_error + 'a ImageVectorizer" where
  "init e globals model_arg preprocess_arg =
     (let m = (case model_arg of Some m' \<Rightarrow> m' | None \<Rightarrow> VGG16 e) in
      case (case preprocess_arg of
              Some _ \<Rightarrow>
                (case globals ''preprocess_fn'' of
                   None \<Rightarrow> Inl (NameError ''preprocess_fn'')
                 | Some g \<Rightarrow> Inr g)
            | None \<Rightarrow> Inr (vgg16_preprocess_input e)) of
        Inl err \<Rightarrow> Inl err
      | Inr p \<Rightarrow>
          Inr \<lparr>model = m, preprocess = p, img_links = [], img_vectors = [], img_titles = []\<rparr>)"

text \<open>The notebook binds no global \<^verbatim>\<open>preprocess_fn\<close> in any of its cells.\<close>

definition notebook_globals :: "string \<rightharpoonup> ('a list \<Rightarrow> 'a list)" where
  "notebook_globals = Map.empty"

subsection \<open>Fetching an image\<close>

text \<open>
  The \<^verbatim>\<open>tempfile.SpooledTemporaryFile\<close> that \<^verbatim>\<open>download_image\<close> opens: its bytes, the
  file position and whether \<^verbatim>\<open>close()\<close> has been called on it.
\<close>

record buffer =
  content :: bytes
  position :: nat
  buf_closed :: bool

definition SpooledTemporaryFile :: buffer where
  "SpooledTemporaryFile = \<lparr>content = [], position = 0, buf_closed = False\<rparr>"

definition buffer_write :: "bytes \<Rightarrow> buffer \<Rightarrow> buffer" where
  "buffer_write chunk b =
     b\<lparr>content := take (position b) (content b) @ chunk @
                    drop (position b + length chunk) (content b),
       position := position b + length chunk\<rparr>"

definition buffer_seek :: "nat \<Rightarrow> buffer \<Rightarrow> buffer" where
  "buffer_seek n b = b\<lparr>position := n\<rparr>"

definition buffer_read :: "buffer \<Rightarrow> bytes \<times> buffer" where
  "buffer_read b = (drop (position b) (content b), b\<lparr>position := length (content b)\<rparr>)"

definition buffer_close :: "buffer \<Rightarrow> buffer" where
  "buffer_close b = b\<lparr>buf_closed := True\<rparr>"

text \<open>
  \<^verbatim>\<open>download_image(self, image_url)\<close>. The result pairs what the caller gets (an exception,
  \<^verbatim>\<open>None\<close> or the pixel array) with the buffer as the call leaves it. The header lookup
  \<^verbatim>\<open>r.headers['content-length']\<close> raises \<^verbatim>\<open>KeyError\<close> on a missing header; the method has
  no \<^verbatim>\<open>try\<close>, so an exception of \<^verbatim>\<open>requests.get\<close>, \<^verbatim>\<open>int\<close> or \<^verbatim>\<open>load_img\<close> leaves it as
  it is. The counters \<^verbatim>\<open>downloaded\<close> and \<^verbatim>\<open>filesize\<close> are never read.
\<close>

definition download_image :: "('i, 'a) env \<Rightarrow> url \<Rightarrow> (py_error + 'a option) \<times> buffer" where
  "download_image e image_url =
     (let buffer = SpooledTemporaryFile in
      case requests_get e image_url of
        Inl err \<Rightarrow> (Inl err, buffer)
      | Inr r \<Rightarrow>
          if status_code r = 200 then
            (case headers r ''content-length'' of
               None \<Rightarrow> (Inl (KeyError ''content-length''), buffer)
             | Some cl \<Rightarrow>
                 (case py_int e cl of
                    Inl err \<Rightarrow> (Inl err, buffer)
                  | Inr filesize \<Rightarrow>
                      (let buffer = fold buffer_write (iter_content r) buffer;
                           buffer = buffer_seek 0 buffer;
                           (data, buffer) = buffer_read buffer
                       in case load_img e data of
                            Inl err \<Rightarrow> (Inl err, buffer)
                          | Inr img \<Rightarrow>
                              (let buffer = buffer_close buffer
                               in (Inr (Some (img_to_array e img)), buffer)))))
          else (Inr None, buffer))"

subsection \<open>Vectorizing\<close>

text \<open>\<^verbatim>\<open>vectorize(self, image_url)\<close>: \<^verbatim>\<open>np.expand_dims(img_arr, axis=0)\<close> is the batch of
  one array, \<^verbatim>\<open>preds[0]\<close> the first row of the prediction.\<close>

definition vectorize :: "('i, 'a) env \<Rightarrow> 'a ImageVectorizer \<Rightarrow> url \<Rightarrow> py_error + vec option" where
  "vectorize e self image_url =
     (case fst (download_image e image_url) of
        Inl err \<Rightarrow> Inl err
      | Inr None \<Rightarrow> Inr None
      | Inr (Some img_arr) \<Rightarrow>
          (let processed_img = preprocess self [img_arr];
               preds = model self processed_img
           in case py_index preds 0 of
                Inl err \<Rightarrow> Inl err
              | Inr v \<Rightarrow> Inr (Some v)))"

text \<open>
  The loop of \<^verbatim>\<open>vectorize_links\<close> over the remaining URLs, with the locals \<^verbatim>\<open>vects\<close> and
  \<^verbatim>\<open>goods\<close> and the lines printed so far. An exception of \<^verbatim>\<open>vectorize\<close> ends the loop.
  \<^verbatim>\<open>time.sleep(0.1)\<close> changes no value and is left out.
\<close>

fun vectorize_loop ::
  "('i, 'a) env \<Rightarrow> 'a ImageVectorizer \<Rightarrow> bool \<Rightarrow> url list \<Rightarrow> vec list \<Rightarrow> url list \<Rightarrow>
   string list \<Rightarrow> (py_error + vec list \<times> url list) \<times> string list" where
  "vectorize_loop e self debug [] vects goods out = (Inr (vects, goods), out)"
| "vectorize_loop e self debug (u # urls) vects goods out =
     (case vectorize e self u of
        Inl err \<Rightarrow> (Inl err, out)
      | Inr (Some v) \<Rightarrow> vectorize_loop e self debug urls (vects @ [v]) (goods @ [u]) out
      | Inr None \<Rightarrow>
          vectorize_loop e self debug urls vects goods
            (if debug then out @ [''error: '' @ u] else out))"

text \<open>
  \<^verbatim>\<open>vectorize_links(self, image_url_list, image_title_list=None, debug=True)\<close>: what the
  call returns or raises, the object afterwards, and the printed lines. The three lists are
  reset first and the title list is stored as given; \<^verbatim>\<open>img_links\<close> and \<^verbatim>\<open>img_vectors\<close> are
  assigned only after the loop, so they stay empty when the loop raises.
\<close>

definition vectorize_links ::
  "('i, 'a) env \<Rightarrow> 'a ImageVectorizer \<Rightarrow> url list \<Rightarrow> string list option \<Rightarrow> bool \<Rightarrow>
   (py_error + url list \<times> vec list) \<times> 'a ImageVectorizer \<times> string list" where
  "vectorize_links e self image_url_list image_title_list debug =
     (let self = self\<lparr>img_links := [], img_vectors := [], img_titles := []\<rparr>;
          self = (case image_title_list of
                    Some ts \<Rightarrow> self\<lparr>img_titles := ts\<rparr>
                  | None \<Rightarrow> self)
      in case vectorize_loop e self debug image_url_list [] [] [] of
           (Inl err, out) \<Rightarrow> (Inl err, self, out)
         | (Inr (vects, goods), out) \<Rightarrow>
             (Inr (goods, vects), self\<lparr>img_links := goods, img_vectors := vects\<rparr>, out))"

subsection \<open>Cosine similarity and the best match\<close>

text \<open>
  A floating-point score: a number or NaN. \<^verbatim>\<open>scipy.spatial.distance.cosine\<close> is one
  minus the dot product over the product of the norms; it divides zero by zero, which is
  NaN, when one of the vectors has norm zero. Vectors of different lengths are rejected with
  \<^verbatim>\<open>ValueError\<close>; the vectors of one model all have one length, and every theorem below
  that computes a similarity is about such vectors.
\<close>

datatype score = NaN | Score real

definition dot :: "vec \<Rightarrow> vec \<Rightarrow> real" where
  "dot u v = sum_list (map2 (*) u v)"

definition cosine :: "vec \<Rightarrow> vec \<Rightarrow> py_error + score" where
  "cosine u v =
     (if length u \<noteq> length v then Inl ValueError
      else (let uv = dot u v; uu = dot u u; vv = dot v v
            in if uu * vv = 0 then Inr NaN
               else Inr (Score (1 - uv / sqrt (uu * vv)))))"

text \<open>\<^verbatim>\<open>_cosine_similarity(self, vector1, vector2)\<close>, one minus the distance.\<close>

definition cosine_similarity :: "vec \<Rightarrow> vec \<Rightarrow> py_error + score" where
  "cosine_similarity vector1 vector2 =
     (case cosine vector1 vector2 of
        Inl err \<Rightarrow> Inl err
      | Inr NaN \<Rightarrow> Inr NaN
      | Inr (Score d) \<Rightarrow> Inr (Score (1 - d)))"

text \<open>
  \<^verbatim>\<open>np.argmax\<close> on a list of floats: the first index of the largest entry, where a NaN
  counts as larger than every number and the first NaN ends the search; the empty list
  raises \<^verbatim>\<open>ValueError\<close>. \<open>score_gt x mp\<close> is numpy's test \<^verbatim>\<open>!(x <= mp)\<close> for a
  running maximum \<open>mp\<close>.
\<close>

definition score_gt :: "score \<Rightarrow> score \<Rightarrow> bool" where
  "score_gt x mp =
     (case mp of
        NaN \<Rightarrow> False
      | Score m \<Rightarrow> (case x of NaN \<Rightarrow> True | Score a \<Rightarrow> m < a))"

fun argmax_from :: "nat \<Rightarrow> score \<Rightarrow> nat \<Rightarrow> score list \<Rightarrow> nat" where
  "argmax_from best mp i [] = best"
| "argmax_from best mp i (x # xs) =
     (if score_gt x mp then argmax_from i x (Suc i) xs
      else argmax_from best mp (Suc i) xs)"

definition argmax :: "score list \<Rightarrow> py_error + nat" where
  "argmax xs = (case xs of [] \<Rightarrow> Inl ValueError | x # rest \<Rightarrow> Inr (argmax_from 0 x 1 rest))"

text \<open>
  The loop of \<^verbatim>\<open>image_similarity\<close> that fills \<^verbatim>\<open>sims_vct\<close>: position \<open>i\<close> gets the
  similarity to the reference vector, except that the position equal to \<^verbatim>\<open>idx\<close> gets 0.0.
\<close>

fun sims_loop :: "vec \<Rightarrow> int \<Rightarrow> nat \<Rightarrow> vec list \<Rightarrow> score list \<Rightarrow> py_error + score list" where
  "sims_loop test_vct idx i [] sims_vct = Inr sims_vct"
| "sims_loop test_vct idx i (vct # rest) sims_vct =
     (if int i \<noteq> idx then
        (case cosine_similarity test_vct vct of
           Inl err \<Rightarrow> Inl err
         | Inr c \<Rightarrow> sims_loop test_vct idx (Suc i) rest (sims_vct @ [c]))
      else sims_loop test_vct idx (Suc i) rest (sims_vct @ [Score 0]))"

subsection \<open>Viewing and comparing\<close>

text \<open>What a method shows: a line printed, or images handed to IPython's \<^verbatim>\<open>display\<close>
  (each \<^verbatim>\<open>Image(url=...)\<close> by its URL).\<close>

datatype event = Print string | Display "url list"


text \<open>The local \<^verbatim>\<open>best_idx\<close> of \<^verbatim>\<open>image_similarity\<close>, from the two lookups at \<^verbatim>\<open>idx\<close>
  to \<^verbatim>\<open>np.argmax(sims_vct)\<close>.\<close>

definition best_idx :: "'a ImageVectorizer \<Rightarrow> int \<Rightarrow> py_error + nat" where
  "best_idx self idx =
     (case py_index (img_links self) idx of
        Inl err \<Rightarrow> Inl err
      | Inr test_img \<Rightarrow>
          (case py_index (img_vectors self) idx of
             Inl err \<Rightarrow> Inl err
           | Inr test_vct \<Rightarrow>
               (case sims_loop test_vct idx 0 (img_vectors self) [] of
                  Inl err \<Rightarrow> Inl err
                | Inr sims_vct \<Rightarrow> argmax sims_vct)))"

text \<open>
  \<^verbatim>\<open>image_similarity(self, idx)\<close>: what it shows, and the value it returns (a title, or
  \<^verbatim>\<open>None\<close>). Both guards print and return \<^verbatim>\<open>None\<close>; the first compares the length with 0
  by \<^verbatim>\<open><\<close>, as the source does.
\<close>

definition image_similarity ::
  "'a ImageVectorizer \<Rightarrow> int \<Rightarrow> py_error + event list \<times> string option" where
  "image_similarity self idx =
     (if int (length (img_vectors self)) < 0 then
        Inr ([Print ''please run vectorize_links() first!''], None)
      else if idx > int (length (img_vectors self)) - 1 then
        Inr ([Print ''index out of bounds!''], None)
      else (case best_idx self idx of
              Inl err \<Rightarrow> Inl err
            | Inr b \<Rightarrow>
                (case py_index (img_links self) idx of
                   Inl err \<Rightarrow> Inl err
                 | Inr o_url \<Rightarrow>
                     (case py_index (img_links self) (int b) of
                        Inl err \<Rightarrow> Inl err
                      | Inr t_url \<Rightarrow>
                          Inr ([Display [o_url, t_url]],
                               if length (img_titles self) > b
                               then Some (img_titles self ! b) else None)))))"

section \<open>A small world to run the class in\<close>

text \<open>
  A transport, a decoder and a network small enough to evaluate by hand. The URLs
  \<^verbatim>\<open>gone\<close> and \<^verbatim>\<open>lost\<close> answer 404; \<^verbatim>\<open>bare\<close> answers 200 without a
  \<^verbatim>\<open>content-length\<close> header; \<^verbatim>\<open>oddl\<close> answers 200 with the header value \<^verbatim>\<open>four\<close>,
  which \<^verbatim>\<open>int\<close> rejects; every other URL answers 200 with the header value \<^verbatim>\<open>4\<close>.
  Every answer with status 200 serves the name of the URL as the body, one byte per chunk. The decoder rejects the body \<^verbatim>\<open>junk\<close>. The
  network sends the picture \<^verbatim>\<open>east\<close> to \<open>[1, 0]\<close>, \<^verbatim>\<open>west\<close> to \<open>[-1, 0]\<close> and every
  other picture to \<open>[0, 1]\<close>.
\<close>

definition demo_get :: "url \<Rightarrow> py_error + response" where
  "demo_get u =
     (if u = ''gone'' \<or> u = ''lost'' then
        Inr \<lparr>status_code = 404, headers = Map.empty, iter_content = []\<rparr>
      else if u = ''bare'' then
        Inr \<lparr>status_code = 200, headers = Map.empty, iter_content = map (\<lambda>c. [c]) u\<rparr>
      else if u = ''oddl'' then
        Inr \<lparr>status_code = 200, headers = [''content-length'' \<mapsto> ''four''],
             iter_content = map (\<lambda>c. [c]) u\<rparr>
      else
        Inr \<lparr>status_code = 200, headers = [''content-length'' \<mapsto> ''4''],
             iter_content = map (\<lambda>c. [c]) u\<rparr>)"

definition demo_int :: "string \<Rightarrow> py_error + int" where
  "demo_int s = (if s = ''4'' then Inr 4 else Inl ValueError)"

definition demo_load :: "bytes \<Rightarrow> py_error + bytes" where
  "demo_load data = (if data = ''junk'' then Inl OSError else Inr data)"

definition demo_predict :: "bytes list \<Rightarrow> vec list" where
  "demo_predict batch =
     map (\<lambda>a. if a = ''east'' then [1, 0] else if a = ''west'' then [- 1, 0] else [0, 1]) batch"

definition demo_env :: "(bytes, bytes) env" where
  "demo_env =
     \<lparr>requests_get = demo_get, py_int = demo_int, load_img = demo_load,
      img_to_array = (\<lambda>img. img), VGG16 = demo_predict,
      vgg16_preprocess_input = (\<lambda>batch. batch)\<rparr>"

text \<open>The object that \<^verbatim>\<open>ImageVectorizer()\<close> builds in this world, and the object after
  \<^verbatim>\<open>vectorize_links(urls, titles)\<close> on it.\<close>

definition demo_vgg :: "bytes ImageVectorizer" where
  "demo_vgg =
     \<lparr>model = demo_predict, preprocess = (\<lambda>batch. batch),
      img_links = [], img_vectors = [], img_titles = []\<rparr>"

definition rebuilt :: "url list \<Rightarrow> string list option \<Rightarrow> bytes ImageVectorizer" where
  "rebuilt urls titles = fst (snd (vectorize_links demo_env demo_vgg urls titles True))"

section \<open>Construction: the preprocessing argument\<close>

lemma init_default:
  "init e g None None =
     Inr \<lparr>model = VGG16 e, preprocess = vgg16_preprocess_input e,
          img_links = [], img_vectors = [], img_titles = []\<rparr>"
  by (simp add: init_def)

lemma init_model_only:
  "init e g (Some m) None =
     Inr \<lparr>model = m, preprocess = vgg16_preprocess_input e,
          img_links = [], img_vectors = [], img_titles = []\<rparr>"
  by (simp add: init_def)

text \<open>Were a global \<^verbatim>\<open>preprocess_fn\<close> bound, the constructor would take that global, still
  not the argument.\<close>

lemma init_takes_global:
  "init e [''preprocess_fn'' \<mapsto> g] (Some m) (Some f) =
     Inr \<lparr>model = m, preprocess = g, img_links = [], img_vectors = [], img_titles = []\<rparr>"
  by (simp add: init_def)

lemma demo_vgg_init: "init demo_env notebook_globals None None = Inr demo_vgg"
  by (simp add: init_def demo_env_def demo_vgg_def)

text \<open>
  Claim C6. A preprocessing function supplied at construction should be the one the
  extractor applies. In the notebook, constructing with any preprocessing function \<open>f\<close>
  (and any model argument) raises \<^verbatim>\<open>NameError\<close> for \<^verbatim>\<open>preprocess_fn\<close>: no extractor is
  built and \<open>f\<close> is never used. Without the argument the VGG16 pair is used
  (\<open>init_default\<close>).
\<close>

theorem init_supplied_preprocess_raises:
  "init e notebook_globals model_arg (Some f) = Inl (NameError ''preprocess_fn'')"
  by (simp add: init_def notebook_globals_def)

section \<open>Fetching: results and the buffer\<close>

lemma buffer_fill:
  "fold buffer_write chunks \<lparr>content = c, position = length c, buf_closed = f\<rparr> =
     \<lparr>content = c @ concat chunks, position = length c + length (concat chunks),
      buf_closed = f\<rparr>"
proof (induction chunks arbitrary: c)
  case Nil
  then show ?case by simp
next
  case (Cons a chunks)
  from Cons [of "c @ a"] show ?case by (simp add: buffer_write_def)
qed

lemma buffer_fill_open:
  "\<not> buf_closed b \<Longrightarrow> \<not> buf_closed (fold buffer_write chunks b)"
  by (induction chunks arbitrary: b) (simp_all add: buffer_write_def)

lemma concat_singletons: "concat (map (\<lambda>c. [c]) s) = s"
  by (induction s) simp_all

lemma download_demo_ok:
  "u \<noteq> ''gone'' \<Longrightarrow> u \<noteq> ''lost'' \<Longrightarrow> u \<noteq> ''bare'' \<Longrightarrow> u \<noteq> ''oddl'' \<Longrightarrow>
   u \<noteq> ''junk'' \<Longrightarrow>
   download_image demo_env u =
     (Inr (Some u), \<lparr>content = u, position = length u, buf_closed = True\<rparr>)"
  using buffer_fill [of "map (\<lambda>c. [c]) u" "[]" False]
  by (simp add: download_image_def demo_env_def demo_get_def demo_int_def demo_load_def
      SpooledTemporaryFile_def buffer_seek_def buffer_read_def buffer_close_def
      concat_singletons)

lemma download_demo_gone:
  "u = ''gone'' \<or> u = ''lost'' \<Longrightarrow>
   download_image demo_env u = (Inr None, \<lparr>content = [], position = 0, buf_closed = False\<rparr>)"
  by (auto simp add: download_image_def demo_env_def demo_get_def SpooledTemporaryFile_def)

lemma download_demo_bare:
  "download_image demo_env ''bare'' =
     (Inl (KeyError ''content-length''), \<lparr>content = [], position = 0, buf_closed = False\<rparr>)"
  by (simp add: download_image_def demo_env_def demo_get_def SpooledTemporaryFile_def)

lemma download_demo_oddl:
  "download_image demo_env ''oddl'' =
     (Inl ValueError, \<lparr>content = [], position = 0, buf_closed = False\<rparr>)"
  by (simp add: download_image_def demo_env_def demo_get_def demo_int_def
      SpooledTemporaryFile_def)

lemma download_demo_junk:
  "download_image demo_env ''junk'' =
     (Inl OSError, \<lparr>content = ''junk'', position = 4, buf_closed = False\<rparr>)"
  using buffer_fill [of "map (\<lambda>c. [c]) ''junk''" "[]" False]
  by (simp add: download_image_def demo_env_def demo_get_def demo_int_def demo_load_def
      SpooledTemporaryFile_def buffer_seek_def buffer_read_def)

text \<open>
  Claim C5, as the code has it. For every URL whose request gives a response:
  \<^verbatim>\<open>download_image\<close> returns \<^verbatim>\<open>None\<close> when the status is not 200. When the status is
  200 and the \<^verbatim>\<open>content-length\<close> header is absent, the \<^verbatim>\<open>KeyError\<close> of the header
  lookup leaves the method; when the header is there and \<^verbatim>\<open>int\<close> rejects its value, the
  exception of \<^verbatim>\<open>int\<close> leaves the method; when the header is numeric and the downloaded
  bytes do not decode, the exception of \<^verbatim>\<open>load_img\<close> leaves the method. Each case stands
  on its own conditions.
\<close>

theorem download_image_failures:
  "(requests_get e u = Inr r \<and> status_code r \<noteq> 200 \<longrightarrow>
      fst (download_image e u) = Inr None) \<and>
   (requests_get e u = Inr r \<and> status_code r = 200 \<and>
    headers r ''content-length'' = None \<longrightarrow>
      fst (download_image e u) = Inl (KeyError ''content-length'')) \<and>
   (requests_get e u = Inr r \<and> status_code r = 200 \<and>
    headers r ''content-length'' = Some cl \<and> py_int e cl = Inl err \<longrightarrow>
      fst (download_image e u) = Inl err) \<and>
   (requests_get e u = Inr r \<and> status_code r = 200 \<and>
    headers r ''content-length'' = Some cl \<and> py_int e cl = Inr n \<and>
    load_img e (concat (iter_content r)) = Inl err \<longrightarrow>
      fst (download_image e u) = Inl err)"
proof (intro conjI impI)
  show "fst (download_image e u) = Inr None"
    if "requests_get e u = Inr r \<and> status_code r \<noteq> 200"
    using that by (simp add: download_image_def)
  show "fst (download_image e u) = Inl (KeyError ''content-length'')"
    if "requests_get e u = Inr r \<and> status_code r = 200 \<and>
      headers r ''content-length'' = None"
    using that by (simp add: download_image_def)
  show "fst (download_image e u) = Inl err"
    if "requests_get e u = Inr r \<and> status_code r = 200 \<and>
      headers r ''content-length'' = Some cl \<and> py_int e cl = Inl err"
    using that by (simp add: download_image_def)
  show "fst (download_image e u) = Inl err"
    if "requests_get e u = Inr r \<and> status_code r = 200 \<and>
      headers r ''content-length'' = Some cl \<and> py_int e cl = Inr n \<and>
      load_img e (concat (iter_content r)) = Inl err"
    using that buffer_fill [of "iter_content r" "[]" False]
    by (simp add: download_image_def SpooledTemporaryFile_def buffer_seek_def buffer_read_def)
qed

text \<open>
  Claim C5, the four cases in the small world, each with its conditions: \<^verbatim>\<open>gone\<close> (404)
  gives \<^verbatim>\<open>None\<close>, \<^verbatim>\<open>bare\<close> (no header) raises \<^verbatim>\<open>KeyError\<close>, \<^verbatim>\<open>oddl\<close> (header value
  \<^verbatim>\<open>four\<close>) raises the \<^verbatim>\<open>ValueError\<close> of \<^verbatim>\<open>int\<close>, \<^verbatim>\<open>junk\<close> (undecodable) raises the
  decoder's \<^verbatim>\<open>OSError\<close>.
\<close>

theorem download_image_failures_witness:
  "(\<exists>r. requests_get demo_env ''gone'' = Inr r \<and> status_code r \<noteq> 200) \<and>
   fst (download_image demo_env ''gone'') = Inr None \<and>
   (\<exists>r. requests_get demo_env ''bare'' = Inr r \<and> status_code r = 200 \<and>
        headers r ''content-length'' = None) \<and>
   fst (download_image demo_env ''bare'') = Inl (KeyError ''content-length'') \<and>
   (\<exists>r. requests_get demo_env ''oddl'' = Inr r \<and> status_code r = 200 \<and>
        headers r ''content-length'' = Some ''four'' \<and>
        py_int demo_env ''four'' = Inl ValueError) \<and>
   fst (download_image demo_env ''oddl'') = Inl ValueError \<and>
   (\<exists>r. requests_get demo_env ''junk'' = Inr r \<and> status_code r = 200 \<and>
        headers r ''content-length'' = Some ''4'' \<and> py_int demo_env ''4'' = Inr 4 \<and>
        load_img demo_env (concat (iter_content r)) = Inl OSError) \<and>
   fst (download_image demo_env ''junk'') = Inl OSError"
proof -
  let ?gone = "\<lparr>status_code = 404, headers = Map.empty, iter_content = []\<rparr>"
  let ?bare = "\<lparr>status_code = 200, headers = Map.empty,
                 iter_content = map (\<lambda>c. [c]) ''bare''\<rparr>"
  let ?oddl = "\<lparr>status_code = 200, headers = [''content-length'' \<mapsto> ''four''],
                 iter_content = map (\<lambda>c. [c]) ''oddl''\<rparr>"
  let ?junk = "\<lparr>status_code = 200, headers = [''content-length'' \<mapsto> ''4''],
                 iter_content = map (\<lambda>c. [c]) ''junk''\<rparr>"
  have g: "requests_get demo_env ''gone'' = Inr ?gone \<and> status_code ?gone \<noteq> 200"
    by (simp add: demo_env_def demo_get_def)
  have b: "requests_get demo_env ''bare'' = Inr ?bare \<and> status_code ?bare = 200 \<and>
      headers ?bare ''content-length'' = None"
    by (simp add: demo_env_def demo_get_def)
  have o: "requests_get demo_env ''oddl'' = Inr ?oddl \<and> status_code ?oddl = 200 \<and>
      headers ?oddl ''content-length'' = Some ''four'' \<and>
      py_int demo_env ''four'' = Inl ValueError"
    by (simp add: demo_env_def demo_get_def demo_int_def)
  have j: "requests_get demo_env ''junk'' = Inr ?junk \<and> status_code ?junk = 200 \<and>
      headers ?junk ''content-length'' = Some ''4'' \<and> py_int demo_env ''4'' = Inr 4 \<and>
      load_img demo_env (concat (iter_content ?junk)) = Inl OSError"
    by (simp add: demo_env_def demo_get_def demo_int_def demo_load_def)
  from g download_image_failures [of demo_env "''gone''" ?gone]
  have 1: "fst (download_image demo_env ''gone'') = Inr None" by blast
  from b download_image_failures [of demo_env "''bare''" ?bare]
  have 2: "fst (download_image demo_env ''bare'') = Inl (KeyError ''content-length'')"
    by blast
  from o download_image_failures [of demo_env "''oddl''" ?oddl "''four''" ValueError]
  have 3: "fst (download_image demo_env ''oddl'') = Inl ValueError" by blast
  from j download_image_failures [of demo_env "''junk''" ?junk "''4''" OSError 4]
  have 4: "fst (download_image demo_env ''junk'') = Inl OSError" by blast
  from g b o j 1 2 3 4 show ?thesis by blast
qed

text \<open>
  Claim C5 as stated fails: for the URL without a \<^verbatim>\<open>content-length\<close> header and for the
  URL whose bytes do not decode, the caller of \<^verbatim>\<open>download_image\<close> gets an exception, not
  \<^verbatim>\<open>None\<close>.
\<close>

theorem download_image_raises:
  "fst (download_image demo_env ''bare'') = Inl (KeyError ''content-length'') \<and>
   fst (download_image demo_env ''junk'') = Inl OSError"
  by (simp add: download_demo_bare download_demo_junk)

lemma download_image_closes_on_success:
  "fst (download_image e u) = Inr (Some a) \<Longrightarrow> buf_closed (snd (download_image e u))"
  by (auto simp: download_image_def buffer_close_def Let_def
      split: sum.splits if_splits option.splits prod.splits)

lemma download_image_open_on_failure:
  "(\<forall>a. fst (download_image e u) \<noteq> Inr (Some a)) \<Longrightarrow>
   \<not> buf_closed (snd (download_image e u))"
  using buffer_fill_open [of SpooledTemporaryFile]
  by (auto simp: download_image_def SpooledTemporaryFile_def buffer_seek_def buffer_read_def
      Let_def split: sum.splits if_splits option.splits prod.splits)

text \<open>
  Claim C8. The buffer should be closed on every path of \<^verbatim>\<open>download_image\<close>. The method
  calls \<^verbatim>\<open>buffer.close()\<close> on the success path only: after the 404 answer for \<^verbatim>\<open>gone\<close>
  and after the failed decoding of \<^verbatim>\<open>junk\<close> the buffer it opened is still open when the
  call ends.
\<close>

theorem buffer_left_open:
  "\<not> buf_closed (snd (download_image demo_env ''gone'')) \<and>
   \<not> buf_closed (snd (download_image demo_env ''junk''))"
  by (simp add: download_demo_gone download_demo_junk)

section \<open>Rebuilding the collection\<close>

lemma vectorize_cong:
  "model s1 = model s2 \<Longrightarrow> preprocess s1 = preprocess s2 \<Longrightarrow> vectorize e s1 = vectorize e s2"
  by (rule ext) (simp add: vectorize_def split: sum.splits option.splits)

lemma vectorize_demo:
  "vectorize demo_env demo_vgg ''east'' = Inr (Some [1, 0])"
  "vectorize demo_env demo_vgg ''west'' = Inr (Some [- 1, 0])"
  "vectorize demo_env demo_vgg ''nord'' = Inr (Some [0, 1])"
  "vectorize demo_env demo_vgg ''gone'' = Inr None"
  "vectorize demo_env demo_vgg ''lost'' = Inr None"
  "vectorize demo_env demo_vgg ''bare'' = Inl (KeyError ''content-length'')"
  "vectorize demo_env demo_vgg ''oddl'' = Inl ValueError"
  "vectorize demo_env demo_vgg ''junk'' = Inl OSError"
  by (simp_all add: vectorize_def download_demo_ok download_demo_gone download_demo_bare
      download_demo_oddl download_demo_junk demo_vgg_def demo_predict_def py_index_def)

lemma vectorize_loop_cong:
  "vectorize e s1 = vectorize e s2 \<Longrightarrow>
   vectorize_loop e s1 debug urls vects goods out =
   vectorize_loop e s2 debug urls vects goods out"
  by (induction urls arbitrary: vects goods out) (auto split: sum.splits option.splits)

lemma vectorize_loop_reset:
  "vectorize_loop e (self\<lparr>img_links := l, img_vectors := v, img_titles := t\<rparr>)
     debug urls vects goods out = vectorize_loop e self debug urls vects goods out"
  by (rule vectorize_loop_cong, rule vectorize_cong) simp_all

text \<open>Every vector the loop keeps is the vector of the URL kept beside it.\<close>

lemma vectorize_loop_inv:
  "list_all2 (\<lambda>u v. vectorize e self u = Inr (Some v)) goods vects \<Longrightarrow>
   fst (vectorize_loop e self debug urls vects goods out) = Inr (vects', goods') \<Longrightarrow>
   list_all2 (\<lambda>u v. vectorize e self u = Inr (Some v)) goods' vects'"
proof (induction urls arbitrary: vects goods out)
  case Nil
  then show ?case by simp
next
  case (Cons u urls)
  show ?case
  proof (cases "vectorize e self u")
    case (Inl err)
    with Cons.prems(2) show ?thesis by simp
  next
    case (Inr r)
    show ?thesis
    proof (cases r)
      case None
      with Inr Cons.prems Cons.IH [of goods vects] show ?thesis by simp
    next
      case (Some v)
      have "list_all2 (\<lambda>u v. vectorize e self u = Inr (Some v)) (goods @ [u]) (vects @ [v])"
        using Cons.prems(1) Inr Some by (simp add: list_all2_appendI)
      from Cons.IH [OF this] Cons.prems(2) Inr Some show ?thesis by simp
    qed
  qed
qed

text \<open>When no URL raises, the loop returns, and keeps exactly the URLs that gave a
  vector, in the order of the input.\<close>

lemma vectorize_loop_goods:
  "list_all (\<lambda>u. \<not> isl (vectorize e self u)) urls \<Longrightarrow>
   \<exists>vects'. fst (vectorize_loop e self debug urls vects goods out) =
      Inr (vects', goods @ filter (\<lambda>u. vectorize e self u \<noteq> Inr None) urls)"
proof (induction urls arbitrary: vects goods out)
  case Nil
  then show ?case by simp
next
  case (Cons u urls)
  from Cons.prems obtain r where r: "vectorize e self u = Inr r"
    by (cases "vectorize e self u") auto
  from Cons.prems have rest: "list_all (\<lambda>u. \<not> isl (vectorize e self u)) urls" by simp
  show ?case
  proof (cases r)
    case None
    with r Cons.IH [OF rest, of vects goods] show ?thesis by simp
  next
    case (Some v)
    with r Cons.IH [OF rest, of "vects @ [v]" "goods @ [u]" out] show ?thesis by simp
  qed
qed

lemma vectorize_loop_raises:
  "list_ex (\<lambda>u. isl (vectorize e self u)) urls \<Longrightarrow>
   isl (fst (vectorize_loop e self debug urls vects goods out))"
proof (induction urls arbitrary: vects goods out)
  case Nil
  then show ?case by simp
next
  case (Cons u urls)
  show ?case
  proof (cases "vectorize e self u")
    case (Inl err)
    then show ?thesis by simp
  next
    case (Inr r)
    with Cons.prems have "list_ex (\<lambda>u. isl (vectorize e self u)) urls" by simp
    from Cons.IH [OF this] Inr show ?thesis by (cases r) simp_all
  qed
qed

lemma vectorize_links_state:
  "fst (snd (vectorize_links e self urls titles debug)) =
     (case fst (vectorize_loop e self debug urls [] [] []) of
        Inl err \<Rightarrow> self\<lparr>img_links := [], img_vectors := [],
                         img_titles := (case titles of Some ts \<Rightarrow> ts | None \<Rightarrow> [])\<rparr>
      | Inr (vects, goods) \<Rightarrow> self\<lparr>img_links := goods, img_vectors := vects,
                         img_titles := (case titles of Some ts \<Rightarrow> ts | None \<Rightarrow> [])\<rparr>)"
  by (cases titles; cases "vectorize_loop e self debug urls [] [] []")
     (auto simp: vectorize_links_def vectorize_loop_reset split: sum.splits)

lemma vectorize_links_result:
  "fst (vectorize_links e self urls titles debug) =
     (case fst (vectorize_loop e self debug urls [] [] []) of
        Inl err \<Rightarrow> Inl err
      | Inr (vects, goods) \<Rightarrow> Inr (goods, vects))"
  by (cases titles; cases "vectorize_loop e self debug urls [] [] []")
     (auto simp: vectorize_links_def vectorize_loop_reset split: sum.splits)

text \<open>The title list is stored as it was given, whatever the fetches do.\<close>

lemma vectorize_links_titles:
  "img_titles (fst (snd (vectorize_links e self urls titles debug))) =
     (case titles of Some ts \<Rightarrow> ts | None \<Rightarrow> [])"
  by (simp add: vectorize_links_state split: sum.splits prod.splits)

lemma rebuilt_eval:
  "rebuilt urls titles =
     (case fst (vectorize_loop demo_env demo_vgg True urls [] [] []) of
        Inl err \<Rightarrow> demo_vgg\<lparr>img_links := [], img_vectors := [],
                         img_titles := (case titles of Some ts \<Rightarrow> ts | None \<Rightarrow> [])\<rparr>
      | Inr (vects, goods) \<Rightarrow> demo_vgg\<lparr>img_links := goods, img_vectors := vects,
                         img_titles := (case titles of Some ts \<Rightarrow> ts | None \<Rightarrow> [])\<rparr>)"
  by (simp add: rebuilt_def vectorize_links_state)

lemma rebuilt_demo:
  "rebuilt [''east'', ''west''] None =
     demo_vgg\<lparr>img_links := [''east'', ''west''], img_vectors := [[1, 0], [- 1, 0]],
       img_titles := []\<rparr>"
  "rebuilt [''east''] None =
     demo_vgg\<lparr>img_links := [''east''], img_vectors := [[1, 0]], img_titles := []\<rparr>"
  "rebuilt [''east'', ''nord''] None =
     demo_vgg\<lparr>img_links := [''east'', ''nord''], img_vectors := [[1, 0], [0, 1]],
       img_titles := []\<rparr>"
  "rebuilt [''east'', ''east'', ''nord''] None =
     demo_vgg\<lparr>img_links := [''east'', ''east'', ''nord''],
       img_vectors := [[1, 0], [1, 0], [0, 1]], img_titles := []\<rparr>"
  "rebuilt [''east'', ''nord'', ''east''] None =
     demo_vgg\<lparr>img_links := [''east'', ''nord'', ''east''],
       img_vectors := [[1, 0], [0, 1], [1, 0]], img_titles := []\<rparr>"
  "rebuilt [''east'', ''nord''] (Some [''a'']) =
     demo_vgg\<lparr>img_links := [''east'', ''nord''], img_vectors := [[1, 0], [0, 1]],
       img_titles := [''a'']\<rparr>"
  "rebuilt [''east'', ''east'', ''nord''] (Some [''a'']) =
     demo_vgg\<lparr>img_links := [''east'', ''east'', ''nord''],
       img_vectors := [[1, 0], [1, 0], [0, 1]], img_titles := [''a'']\<rparr>"
  by (simp_all add: rebuilt_eval vectorize_demo)

text \<open>
  Claim C1. After a rebuild with a title list where K locations succeed, all three lists
  should have length K and agree index by index. The rebuild of the URLs \<^verbatim>\<open>gone\<close> (404)
  and \<^verbatim>\<open>east\<close> with the titles \<^verbatim>\<open>first\<close> and \<^verbatim>\<open>second\<close> keeps one link and one vector
  but both titles: position 0 holds the image \<^verbatim>\<open>east\<close> with the title of the dropped
  \<^verbatim>\<open>gone\<close>.
\<close>

theorem titles_not_filtered:
  "img_links (rebuilt [''gone'', ''east''] (Some [''first'', ''second''])) = [''east''] \<and>
   img_vectors (rebuilt [''gone'', ''east''] (Some [''first'', ''second''])) = [[1, 0]] \<and>
   img_titles (rebuilt [''gone'', ''east''] (Some [''first'', ''second''])) =
     [''first'', ''second'']"
  by (simp add: rebuilt_eval vectorize_demo)

text \<open>What a rebuild leaves: nothing when some fetch raises, and otherwise the URLs that
  gave a vector, in the order of the input, with their vectors.\<close>

lemma vectorize_links_outcome:
  "(let s' = fst (snd (vectorize_links e self urls titles debug));
        goods = filter (\<lambda>u. vectorize e self u \<noteq> Inr None) urls
    in if list_ex (\<lambda>u. isl (vectorize e self u)) urls
       then isl (fst (vectorize_links e self urls titles debug)) \<and>
            img_links s' = [] \<and> img_vectors s' = []
       else \<exists>vects.
            fst (vectorize_links e self urls titles debug) = Inr (goods, vects) \<and>
            img_links s' = goods \<and> img_vectors s' = vects \<and>
            list_all2 (\<lambda>u v. vectorize e self u = Inr (Some v)) goods vects)"
proof (cases "list_ex (\<lambda>u. isl (vectorize e self u)) urls")
  case True
  from vectorize_loop_raises [OF True, of debug "[]" "[]" "[]"]
  obtain err where "fst (vectorize_loop e self debug urls [] [] []) = Inl err"
    by (cases "fst (vectorize_loop e self debug urls [] [] [])") auto
  with True show ?thesis
    by (simp add: vectorize_links_state vectorize_links_result)
next
  case False
  then have ok: "list_all (\<lambda>u. \<not> isl (vectorize e self u)) urls"
    by (simp add: list_all_iff list_ex_iff)
  from vectorize_loop_goods [OF ok, of debug "[]" "[]" "[]"] obtain vects where
    loop: "fst (vectorize_loop e self debug urls [] [] []) =
      Inr (vects, filter (\<lambda>u. vectorize e self u \<noteq> Inr None) urls)"
    by auto
  have "list_all2 (\<lambda>u v. vectorize e self u = Inr (Some v))
      (filter (\<lambda>u. vectorize e self u \<noteq> Inr None) urls) vects"
    by (rule vectorize_loop_inv [where goods = "[]" and vects = "[]"]) (use loop in simp_all)
  with loop False show ?thesis
    by (simp add: vectorize_links_state vectorize_links_result)
qed

text \<open>
  Claim C9, as the code has it, for the links and the vectors. When no fetch raises, so
  that every location that fails does so by a status other than 200, the rebuild returns,
  and the stored links are the input list filtered to the URLs that gave a vector, in the
  order of the input, the stored vectors being theirs position by position. When some fetch
  raises, the rebuild raises and leaves both lists empty. In particular, a rebuild over
  five URLs where \<^verbatim>\<open>vectorize\<close> gives \<^verbatim>\<open>None\<close> at positions 1 and 3 and a vector at
  positions 0, 2 and 4 returns and stores, in that order, the three links and the three
  vectors of positions 0, 2, 4.
\<close>

theorem vectorize_links_keeps_order:
  "(let s' = fst (snd (vectorize_links e self urls titles debug));
        goods = filter (\<lambda>u. vectorize e self u \<noteq> Inr None) urls
    in if list_ex (\<lambda>u. isl (vectorize e self u)) urls
       then isl (fst (vectorize_links e self urls titles debug)) \<and>
            img_links s' = [] \<and> img_vectors s' = []
       else \<exists>vects.
            fst (vectorize_links e self urls titles debug) = Inr (goods, vects) \<and>
            img_links s' = goods \<and> img_vectors s' = vects \<and>
            list_all2 (\<lambda>u v. vectorize e self u = Inr (Some v)) goods vects) \<and>
   (vectorize e self ua = Inr (Some va) \<and> vectorize e self ub = Inr None \<and>
    vectorize e self uc = Inr (Some vc) \<and> vectorize e self ud = Inr None \<and>
    vectorize e self ue = Inr (Some ve) \<longrightarrow>
      fst (vectorize_links e self [ua, ub, uc, ud, ue] titles debug) =
        Inr ([ua, uc, ue], [va, vc, ve]) \<and>
      img_links (fst (snd (vectorize_links e self [ua, ub, uc, ud, ue] titles debug))) =
        [ua, uc, ue] \<and>
      img_vectors (fst (snd (vectorize_links e self [ua, ub, uc, ud, ue] titles debug))) =
        [va, vc, ve])"
proof (intro conjI impI)
  show "let s' = fst (snd (vectorize_links e self urls titles debug));
        goods = filter (\<lambda>u. vectorize e self u \<noteq> Inr None) urls
    in if list_ex (\<lambda>u. isl (vectorize e self u)) urls
       then isl (fst (vectorize_links e self urls titles debug)) \<and>
            img_links s' = [] \<and> img_vectors s' = []
       else \<exists>vects.
            fst (vectorize_links e self urls titles debug) = Inr (goods, vects) \<and>
            img_links s' = goods \<and> img_vectors s' = vects \<and>
            list_all2 (\<lambda>u v. vectorize e self u = Inr (Some v)) goods vects"
    by (rule vectorize_links_outcome)
next
  assume h: "vectorize e self ua = Inr (Some va) \<and> vectorize e self ub = Inr None \<and>
    vectorize e self uc = Inr (Some vc) \<and> vectorize e self ud = Inr None \<and>
    vectorize e self ue = Inr (Some ve)"
  from vectorize_links_outcome [of e self "[ua, ub, uc, ud, ue]" titles debug] h
  have r: "fst (vectorize_links e self [ua, ub, uc, ud, ue] titles debug) =
        Inr ([ua, uc, ue], [va, vc, ve]) \<and>
      img_links (fst (snd (vectorize_links e self [ua, ub, uc, ud, ue] titles debug))) =
        [ua, uc, ue] \<and>
      img_vectors (fst (snd (vectorize_links e self [ua, ub, uc, ud, ue] titles debug))) =
        [va, vc, ve]"
    by (auto simp: Let_def list_all2_Cons1)
  from r show "fst (vectorize_links e self [ua, ub, uc, ud, ue] titles debug) =
        Inr ([ua, uc, ue], [va, vc, ve])" by simp
  from r show "img_links (fst (snd (vectorize_links e self [ua, ub, uc, ud, ue] titles debug))) =
        [ua, uc, ue]" by simp
  from r show "img_vectors (fst (snd (vectorize_links e self [ua, ub, uc, ud, ue] titles debug))) =
        [va, vc, ve]" by simp
qed

text \<open>
  Claim C9, the scenario in the small world: five URLs of which those at positions 1 and 3
  answer 404. The rebuilt collection has length 3 and holds the links and vectors of
  positions 0, 2, 4 in that order. And a rebuild in which the second URL does not decode:
  it raises and both lists are empty.
\<close>

theorem vectorize_links_keeps_order_witness:
  "vectorize demo_env demo_vgg ''east'' = Inr (Some [1, 0]) \<and>
   vectorize demo_env demo_vgg ''gone'' = Inr None \<and>
   vectorize demo_env demo_vgg ''west'' = Inr (Some [- 1, 0]) \<and>
   vectorize demo_env demo_vgg ''lost'' = Inr None \<and>
   vectorize demo_env demo_vgg ''nord'' = Inr (Some [0, 1]) \<and>
   fst (vectorize_links demo_env demo_vgg [''east'', ''gone'', ''west'', ''lost'', ''nord'']
          None True) =
     Inr ([''east'', ''west'', ''nord''], [[1, 0], [- 1, 0], [0, 1]]) \<and>
   img_links (rebuilt [''east'', ''gone'', ''west'', ''lost'', ''nord''] None) =
     [''east'', ''west'', ''nord''] \<and>
   img_vectors (rebuilt [''east'', ''gone'', ''west'', ''lost'', ''nord''] None) =
     [[1, 0], [- 1, 0], [0, 1]] \<and>
   length (img_links (rebuilt [''east'', ''gone'', ''west'', ''lost'', ''nord''] None)) = 3 \<and>
   list_ex (\<lambda>u. isl (vectorize demo_env demo_vgg u)) [''east'', ''junk''] \<and>
   isl (fst (vectorize_links demo_env demo_vgg [''east'', ''junk''] None True)) \<and>
   img_links (rebuilt [''east'', ''junk''] None) = [] \<and>
   img_vectors (rebuilt [''east'', ''junk''] None) = []"
proof -
  have h: "vectorize demo_env demo_vgg ''east'' = Inr (Some [1, 0]) \<and>
      vectorize demo_env demo_vgg ''gone'' = Inr None \<and>
      vectorize demo_env demo_vgg ''west'' = Inr (Some [- 1, 0]) \<and>
      vectorize demo_env demo_vgg ''lost'' = Inr None \<and>
      vectorize demo_env demo_vgg ''nord'' = Inr (Some [0, 1])"
    by (simp add: vectorize_demo)
  have k: "list_ex (\<lambda>u. isl (vectorize demo_env demo_vgg u)) [''east'', ''junk'']"
    by (simp add: vectorize_demo)
  from h vectorize_links_keeps_order [where e = demo_env and self = demo_vgg
      and titles = None and debug = True
      and ua = "''east''" and ub = "''gone''" and uc = "''west''" and ud = "''lost''"
      and ue = "''nord''" and va = "[1, 0]" and vc = "[- 1, 0]" and ve = "[0, 1]"]
  have a: "fst (vectorize_links demo_env demo_vgg
          [''east'', ''gone'', ''west'', ''lost'', ''nord''] None True) =
       Inr ([''east'', ''west'', ''nord''], [[1, 0], [- 1, 0], [0, 1]]) \<and>
     img_links (rebuilt [''east'', ''gone'', ''west'', ''lost'', ''nord''] None) =
       [''east'', ''west'', ''nord''] \<and>
     img_vectors (rebuilt [''east'', ''gone'', ''west'', ''lost'', ''nord''] None) =
       [[1, 0], [- 1, 0], [0, 1]]"
    unfolding rebuilt_def by blast
  from k vectorize_links_keeps_order [where e = demo_env and self = demo_vgg
      and urls = "[''east'', ''junk'']" and titles = None and debug = True]
  have b: "isl (fst (vectorize_links demo_env demo_vgg [''east'', ''junk''] None True)) \<and>
     img_links (rebuilt [''east'', ''junk''] None) = [] \<and>
     img_vectors (rebuilt [''east'', ''junk''] None) = []"
    by (simp add: rebuilt_def Let_def)
  from h k a b show ?thesis by simp
qed

text \<open>
  Claim C9 as stated fails when a location fails by raising. In the rebuild of five URLs
  where the one at position 1 does not decode and the one at position 3 has no
  \<^verbatim>\<open>content-length\<close> header, the decoder's exception leaves \<^verbatim>\<open>vectorize_links\<close>: no
  collection of length 3 is built, and \<^verbatim>\<open>east\<close>, fetched before the failure, is not kept.
\<close>

theorem rebuild_aborts_when_fetch_raises:
  "fst (vectorize_links demo_env demo_vgg [''east'', ''junk'', ''west'', ''bare'', ''nord'']
          None True) = Inl OSError \<and>
   img_links (rebuilt [''east'', ''junk'', ''west'', ''bare'', ''nord''] None) = [] \<and>
   img_vectors (rebuilt [''east'', ''junk'', ''west'', ''bare'', ''nord''] None) = []"
  by (simp add: vectorize_links_result rebuilt_eval vectorize_demo)

text \<open>
  Claim C10. A constructed object has no links and no vectors. After any call of
  \<^verbatim>\<open>vectorize_links\<close>, returned or raised, the stored links and the stored vectors
  correspond position by position (so they have the same length), and each stored vector
  is the vector that \<^verbatim>\<open>vectorize\<close> returned, not \<^verbatim>\<open>None\<close>, for the link at its position.
\<close>

theorem links_vectors_parallel:
  "(case init e g model_arg preprocess_arg of
      Inl err \<Rightarrow> True
    | Inr s \<Rightarrow> img_links s = [] \<and> img_vectors s = []) \<and>
   list_all2 (\<lambda>u v. vectorize e self u = Inr (Some v))
     (img_links (fst (snd (vectorize_links e self urls titles debug))))
     (img_vectors (fst (snd (vectorize_links e self urls titles debug))))"
proof
  show "case init e g model_arg preprocess_arg of
      Inl err \<Rightarrow> True
    | Inr s \<Rightarrow> img_links s = [] \<and> img_vectors s = []"
    by (auto simp: init_def Let_def split: sum.splits option.splits)
next
  show "list_all2 (\<lambda>u v. vectorize e self u = Inr (Some v))
     (img_links (fst (snd (vectorize_links e self urls titles debug))))
     (img_vectors (fst (snd (vectorize_links e self urls titles debug))))"
  proof (cases "fst (vectorize_loop e self debug urls [] [] [])")
    case (Inl err)
    then show ?thesis by (simp add: vectorize_links_state)
  next
    case (Inr r)
    obtain vects goods where r: "r = (vects, goods)" by (cases r)
    have "list_all2 (\<lambda>u v. vectorize e self u = Inr (Some v)) goods vects"
      by (rule vectorize_loop_inv [where goods = "[]" and vects = "[]"])
         (use Inr r in simp_all)
    with Inr r show ?thesis by (simp add: vectorize_links_state)
  qed
qed

text \<open>
  Claim C10 in the small world: the default construction succeeds with empty lists, and
  the rebuild of \<^verbatim>\<open>east\<close>, \<^verbatim>\<open>gone\<close>, \<^verbatim>\<open>west\<close> stores two links and their two vectors.
\<close>

theorem links_vectors_parallel_witness:
  "init demo_env notebook_globals None None = Inr demo_vgg \<and>
   img_links demo_vgg = [] \<and> img_vectors demo_vgg = [] \<and>
   img_links (rebuilt [''east'', ''gone'', ''west''] None) = [''east'', ''west''] \<and>
   img_vectors (rebuilt [''east'', ''gone'', ''west''] None) = [[1, 0], [- 1, 0]] \<and>
   list_all2 (\<lambda>u v. vectorize demo_env demo_vgg u = Inr (Some v))
     (img_links (rebuilt [''east'', ''gone'', ''west''] None))
     (img_vectors (rebuilt [''east'', ''gone'', ''west''] None))"
proof -
  have a: "init demo_env notebook_globals None None = Inr demo_vgg"
    by (rule demo_vgg_init)
  have b: "img_links demo_vgg = [] \<and> img_vectors demo_vgg = []"
    by (simp add: demo_vgg_def)
  have c: "img_links (rebuilt [''east'', ''gone'', ''west''] None) = [''east'', ''west''] \<and>
      img_vectors (rebuilt [''east'', ''gone'', ''west''] None) = [[1, 0], [- 1, 0]]"
    by (simp add: rebuilt_eval vectorize_demo)
  from links_vectors_parallel [of demo_env notebook_globals None None demo_vgg
      "[''east'', ''gone'', ''west'']" None True] a b c
  show ?thesis by (simp add: rebuilt_def)
qed

section \<open>Scores and the best match\<close>

lemma score_gt_irrefl: "\<not> score_gt x x"
  by (simp add: score_gt_def split: score.splits)

lemma score_gt_trans: "score_gt y x \<Longrightarrow> score_gt x mp \<Longrightarrow> score_gt y mp"
  by (auto simp: score_gt_def split: score.splits)

text \<open>The search keeps an index inside the list whose entry no entry exceeds; \<open>pre\<close> is
  the part of the list already read.\<close>

lemma argmax_from_spec:
  "best < length pre \<Longrightarrow> i = length pre \<Longrightarrow> pre ! best = mp \<Longrightarrow>
   list_all (\<lambda>x. \<not> score_gt x mp) pre \<Longrightarrow>
   argmax_from best mp i xs < length (pre @ xs) \<and>
   list_all (\<lambda>x. \<not> score_gt x ((pre @ xs) ! argmax_from best mp i xs)) (pre @ xs)"
proof (induction xs arbitrary: best mp i pre)
  case Nil
  then show ?case by simp
next
  case (Cons x xs)
  show ?case
  proof (cases "score_gt x mp")
    case True
    have all: "list_all (\<lambda>y. \<not> score_gt y x) (pre @ [x])"
      using Cons.prems(4) True score_gt_trans score_gt_irrefl
      by (auto simp: list_all_iff)
    have "argmax_from i x (Suc i) xs < length ((pre @ [x]) @ xs) \<and>
      list_all (\<lambda>y. \<not> score_gt y (((pre @ [x]) @ xs) ! argmax_from i x (Suc i) xs))
        ((pre @ [x]) @ xs)"
      by (rule Cons.IH) (use Cons.prems all in \<open>simp_all add: nth_append\<close>)
    with True show ?thesis by simp
  next
    case False
    have all: "list_all (\<lambda>y. \<not> score_gt y mp) (pre @ [x])"
      using Cons.prems(4) False by simp
    have "argmax_from best mp (Suc i) xs < length ((pre @ [x]) @ xs) \<and>
      list_all (\<lambda>y. \<not> score_gt y (((pre @ [x]) @ xs) ! argmax_from best mp (Suc i) xs))
        ((pre @ [x]) @ xs)"
      by (rule Cons.IH) (use Cons.prems all in \<open>simp_all add: nth_append\<close>)
    with False show ?thesis by simp
  qed
qed

lemma argmax_spec:
  assumes "xs \<noteq> []"
  shows "\<exists>b. argmax xs = Inr b \<and> b < length xs \<and> list_all (\<lambda>x. \<not> score_gt x (xs ! b)) xs"
proof -
  obtain x rest where xs: "xs = x # rest" using assms by (cases xs) auto
  have "argmax_from 0 x (length [x]) rest < length ([x] @ rest) \<and>
      list_all (\<lambda>y. \<not> score_gt y (([x] @ rest) ! argmax_from 0 x (length [x]) rest))
        ([x] @ rest)"
    by (rule argmax_from_spec) (simp_all add: score_gt_irrefl)
  then show ?thesis by (simp add: xs argmax_def)
qed

lemma cosine_similarity_total:
  "length u = length v \<Longrightarrow> \<exists>c. cosine_similarity u v = Inr c"
  by (auto simp: cosine_similarity_def cosine_def Let_def split: score.splits)

lemma cosine_similarity_demo:
  "cosine_similarity [1, 0] [1, 0] = Inr (Score 1)"
  "cosine_similarity [1, 0] [- 1, 0] = Inr (Score (- 1))"
  "cosine_similarity [1, 0] [0, 1] = Inr (Score 0)"
  "cosine_similarity [0, 1] [1, 0] = Inr (Score 0)"
  "cosine_similarity [0, 1] [0, 1] = Inr (Score 1)"
  by (simp_all add: cosine_similarity_def cosine_def dot_def)

text \<open>What the loop appends: one score per vector, 0.0 at the position equal to
  \<^verbatim>\<open>idx\<close> and the cosine similarity to the reference everywhere else.\<close>

lemma sims_loop_spec:
  "sims_loop t idx i vs acc = Inr sims \<Longrightarrow>
   \<exists>rest. sims = acc @ rest \<and> length rest = length vs \<and>
     (\<forall>k<length vs. if int (i + k) = idx then rest ! k = Score 0
                     else cosine_similarity t (vs ! k) = Inr (rest ! k))"
proof (induction vs arbitrary: i acc)
  case Nil
  then show ?case by simp
next
  case (Cons v vs)
  show ?case
  proof (cases "int i = idx")
    case True
    with Cons.prems have "sims_loop t idx (Suc i) vs (acc @ [Score 0]) = Inr sims" by simp
    from Cons.IH [OF this] obtain rest where
      r: "sims = (acc @ [Score 0]) @ rest" "length rest = length vs"
         "\<forall>k<length vs. if int (Suc i + k) = idx then rest ! k = Score 0
                     else cosine_similarity t (vs ! k) = Inr (rest ! k)"
      by blast
    have "\<forall>k<length (v # vs). if int (i + k) = idx then (Score 0 # rest) ! k = Score 0
                     else cosine_similarity t ((v # vs) ! k) = Inr ((Score 0 # rest) ! k)"
    proof (intro allI impI)
      fix k assume "k < length (v # vs)"
      then show "if int (i + k) = idx then (Score 0 # rest) ! k = Score 0
                     else cosine_similarity t ((v # vs) ! k) = Inr ((Score 0 # rest) ! k)"
        using r(3) True by (cases k) auto
    qed
    with r(1,2) show ?thesis by (intro exI [of _ "Score 0 # rest"]) simp
  next
    case False
    with Cons.prems obtain c where
      c: "cosine_similarity t v = Inr c" "sims_loop t idx (Suc i) vs (acc @ [c]) = Inr sims"
      by (auto split: sum.splits)
    from Cons.IH [OF c(2)] obtain rest where
      r: "sims = (acc @ [c]) @ rest" "length rest = length vs"
         "\<forall>k<length vs. if int (Suc i + k) = idx then rest ! k = Score 0
                     else cosine_similarity t (vs ! k) = Inr (rest ! k)"
      by blast
    have "\<forall>k<length (v # vs). if int (i + k) = idx then (c # rest) ! k = Score 0
                     else cosine_similarity t ((v # vs) ! k) = Inr ((c # rest) ! k)"
    proof (intro allI impI)
      fix k assume "k < length (v # vs)"
      then show "if int (i + k) = idx then (c # rest) ! k = Score 0
                     else cosine_similarity t ((v # vs) ! k) = Inr ((c # rest) ! k)"
        using r(3) False c(1) by (cases k) auto
    qed
    with r(1,2) show ?thesis by (intro exI [of _ "c # rest"]) simp
  qed
qed

lemma sims_loop_nth:
  assumes "sims_loop t idx 0 vs [] = Inr sims"
  shows "length sims = length vs"
    and "k < length vs \<Longrightarrow> int k = idx \<Longrightarrow> sims ! k = Score 0"
    and "k < length vs \<Longrightarrow> int k \<noteq> idx \<Longrightarrow> cosine_similarity t (vs ! k) = Inr (sims ! k)"
  using sims_loop_spec [OF assms] by (auto split: if_splits)

lemma sims_loop_total:
  "list_all (\<lambda>v. length v = length t) vs \<Longrightarrow> \<exists>sims. sims_loop t idx i vs acc = Inr sims"
proof (induction vs arbitrary: i acc)
  case Nil
  then show ?case by simp
next
  case (Cons v vs)
  then obtain c where "cosine_similarity t v = Inr c"
    using cosine_similarity_total [of t v] by auto
  with Cons show ?case by simp
qed

lemma py_index_valid:
  "0 \<le> i \<Longrightarrow> i < int (length xs) \<Longrightarrow> py_index xs i = Inr (xs ! nat i)"
  by (simp add: py_index_def)


text \<open>With a valid reference index and vectors of one dimension, \<^verbatim>\<open>best_idx\<close> is computed
  without an exception, lies inside the collection, and no score exceeds the score there.\<close>

lemma best_idx_valid:
  assumes inv: "length (img_links self) = length (img_vectors self)"
    and r: "0 \<le> r" "r < int (length (img_vectors self))"
    and dims: "list_all (\<lambda>v. length v = d) (img_vectors self)"
  shows "\<exists>sims b. sims_loop (img_vectors self ! nat r) r 0 (img_vectors self) [] = Inr sims \<and>
      length sims = length (img_vectors self) \<and>
      best_idx self r = Inr b \<and> b < length sims \<and>
      list_all (\<lambda>x. \<not> score_gt x (sims ! b)) sims"
proof -
  let ?vs = "img_vectors self"
  let ?t = "?vs ! nat r"
  from r have rn: "nat r < length ?vs" by simp
  with dims have "length ?t = d" by (simp add: list_all_length)
  with dims have "list_all (\<lambda>v. length v = length ?t) ?vs" by simp
  from sims_loop_total [OF this, of r 0 "[]"] obtain sims where
    sims: "sims_loop ?t r 0 ?vs [] = Inr sims" by blast
  have len: "length sims = length ?vs" by (rule sims_loop_nth(1) [OF sims])
  with rn have "sims \<noteq> []" by auto
  from argmax_spec [OF this] obtain b where
    b: "argmax sims = Inr b" "b < length sims" "list_all (\<lambda>x. \<not> score_gt x (sims ! b)) sims"
    by blast
  have "best_idx self r = Inr b"
    using r inv sims b(1) by (simp add: best_idx_def py_index_valid)
  with sims len b show ?thesis by blast
qed


section \<open>Self-exclusion\<close>

text \<open>
  Claim C2, as the code has it. In a collection whose links and vectors are parallel and
  whose vectors have one dimension, for a valid reference index \<open>r\<close>: the score at \<open>r\<close> is
  forced to 0.0, and the best match is not \<open>r\<close> whenever some other candidate's cosine
  similarity to the reference exceeds 0.0 (or is NaN).
\<close>

theorem no_self_match_when_positive:
  assumes inv: "length (img_links self) = length (img_vectors self)"
    and r: "0 \<le> r" "r < int (length (img_vectors self))"
    and dims: "list_all (\<lambda>v. length v = d) (img_vectors self)"
    and j: "j < length (img_vectors self)" "int j \<noteq> r"
    and c: "cosine_similarity (img_vectors self ! nat r) (img_vectors self ! j) = Inr c"
      "score_gt c (Score 0)"
  shows "\<exists>sims b. sims_loop (img_vectors self ! nat r) r 0 (img_vectors self) [] = Inr sims \<and>
      sims ! nat r = Score 0 \<and> best_idx self r = Inr b \<and> b \<noteq> nat r"
proof -
  from best_idx_valid [OF inv r dims] obtain sims b where
    sims: "sims_loop (img_vectors self ! nat r) r 0 (img_vectors self) [] = Inr sims"
    and len: "length sims = length (img_vectors self)"
    and b: "best_idx self r = Inr b" "b < length sims"
      "list_all (\<lambda>x. \<not> score_gt x (sims ! b)) sims"
    by blast
  from r have rn: "nat r < length (img_vectors self)" "int (nat r) = r" by simp_all
  have zero: "sims ! nat r = Score 0"
    by (rule sims_loop_nth(2) [OF sims rn])
  have "cosine_similarity (img_vectors self ! nat r) (img_vectors self ! j) = Inr (sims ! j)"
    by (rule sims_loop_nth(3) [OF sims j])
  with c have "score_gt (sims ! j) (Score 0)" by simp
  moreover from b(3) j(1) len have "\<not> score_gt (sims ! j) (sims ! b)"
    by (simp add: list_all_length)
  ultimately have "b \<noteq> nat r" using zero by auto
  with sims zero b(1) show ?thesis by blast
qed

text \<open>
  Claim C2 in the small world: in the collection \<^verbatim>\<open>east\<close>, \<^verbatim>\<open>nord\<close>, \<^verbatim>\<open>east\<close> the
  candidate at position 2 has similarity 1.0 to the reference at position 0, and the best
  match of 0 is not 0.
\<close>

theorem no_self_match_when_positive_witness:
  "length (img_links (rebuilt [''east'', ''nord'', ''east''] None)) =
     length (img_vectors (rebuilt [''east'', ''nord'', ''east''] None)) \<and>
   list_all (\<lambda>v. length v = 2) (img_vectors (rebuilt [''east'', ''nord'', ''east''] None)) \<and>
   cosine_similarity (img_vectors (rebuilt [''east'', ''nord'', ''east''] None) ! nat 0)
     (img_vectors (rebuilt [''east'', ''nord'', ''east''] None) ! 2) = Inr (Score 1) \<and>
   score_gt (Score 1) (Score 0) \<and>
   (\<exists>b. best_idx (rebuilt [''east'', ''nord'', ''east''] None) 0 = Inr b \<and> b \<noteq> nat 0)"
proof -
  let ?s = "rebuilt [''east'', ''nord'', ''east''] None"
  have s: "?s = demo_vgg\<lparr>img_links := [''east'', ''nord'', ''east''],
       img_vectors := [[1, 0], [0, 1], [1, 0]], img_titles := []\<rparr>"
    by (rule rebuilt_demo)
  have inv: "length (img_links ?s) = length (img_vectors ?s)" by (simp add: s)
  have dims: "list_all (\<lambda>v. length v = 2) (img_vectors ?s)" by (simp add: s)
  have r: "(0::int) \<le> 0" "0 < int (length (img_vectors ?s))" by (simp_all add: s)
  have j: "2 < length (img_vectors ?s)" "int 2 \<noteq> 0" by (simp_all add: s)
  have c: "cosine_similarity (img_vectors ?s ! nat 0) (img_vectors ?s ! 2) = Inr (Score 1)"
    by (simp add: s cosine_similarity_demo)
  have g: "score_gt (Score 1) (Score 0)" by (simp add: score_gt_def)
  from no_self_match_when_positive [OF inv r dims j c g]
  have "\<exists>b. best_idx ?s 0 = Inr b \<and> b \<noteq> nat 0" by blast
  with inv dims c g show ?thesis by blast
qed

text \<open>
  Claim C2 as stated fails. In the collection \<^verbatim>\<open>east\<close>, \<^verbatim>\<open>west\<close> the only other
  candidate has cosine similarity -1.0 to the reference 0, below the forced 0.0: the best
  match of 0 is 0 itself, and both displayed images are \<^verbatim>\<open>east\<close>. So it is in a collection
  of one image.
\<close>

theorem self_match_when_others_negative:
  "best_idx (rebuilt [''east'', ''west''] None) 0 = Inr 0 \<and>
   image_similarity (rebuilt [''east'', ''west''] None) 0 =
     Inr ([Display [''east'', ''east'']], None) \<and>
   best_idx (rebuilt [''east''] None) 0 = Inr 0"
  by (simp add: rebuilt_demo image_similarity_def best_idx_def py_index_def
      cosine_similarity_demo argmax_def score_gt_def)

section \<open>The guards of view_image and image_similarity\<close>

lemma please_run_unreachable:
  "image_similarity self idx \<noteq> Inr ([Print ''please run vectorize_links() first!''], None)"
  by (simp add: image_similarity_def split: sum.splits)

text \<open>
  Claim C3. On an empty collection \<^verbatim>\<open>image_similarity\<close> should take the branch that
  prints \<^verbatim>\<open>please run vectorize_links() first!\<close>. Its guard is
  \<^verbatim>\<open>len(self.img_vectors) < 0\<close>, which no list satisfies: on the freshly constructed
  object the index 0 takes the \<^verbatim>\<open>index out of bounds!\<close> branch and the index -1 raises
  \<^verbatim>\<open>IndexError\<close>. No input reaches the branch (\<open>please_run_unreachable\<close>).
\<close>

theorem empty_collection_branch_missed:
  "image_similarity demo_vgg 0 = Inr ([Print ''index out of bounds!''], None) \<and>
   image_similarity demo_vgg (- 1) = Inl IndexError"
  by (simp add: demo_vgg_def image_similarity_def best_idx_def py_index_def)




section \<open>What image_similarity returns\<close>

text \<open>
  Claim C7, as the code has it. In a collection whose links and vectors are parallel and
  whose vectors have one dimension, for a valid reference index, \<^verbatim>\<open>image_similarity\<close>
  computes a best-match index \<open>b\<close> inside the collection, displays the reference image and
  the image at \<open>b\<close>, and returns the title at \<open>b\<close> when the title list reaches that far
  and \<^verbatim>\<open>None\<close> otherwise, without failing. The index \<open>b\<close> is not part of the returned value.
\<close>

theorem image_similarity_returns_title:
  assumes inv: "length (img_links self) = length (img_vectors self)"
    and r: "0 \<le> r" "r < int (length (img_vectors self))"
    and dims: "list_all (\<lambda>v. length v = d) (img_vectors self)"
  shows "\<exists>b. b < length (img_vectors self) \<and> best_idx self r = Inr b \<and>
      image_similarity self r =
        Inr ([Display [img_links self ! nat r, img_links self ! b]],
             if b < length (img_titles self) then Some (img_titles self ! b) else None)"
proof -
  from best_idx_valid [OF assms] obtain sims :: "score list" and b where
    b: "length sims = length (img_vectors self)" "best_idx self r = Inr b" "b < length sims"
    by auto
  have "image_similarity self r =
        Inr ([Display [img_links self ! nat r, img_links self ! b]],
             if b < length (img_titles self) then Some (img_titles self ! b) else None)"
    using r inv b by (simp add: image_similarity_def py_index_valid)
  with b show ?thesis by auto
qed

text \<open>
  Claim C7 in the small world: the collection \<^verbatim>\<open>east\<close>, \<^verbatim>\<open>east\<close>, \<^verbatim>\<open>nord\<close> with the one
  title \<^verbatim>\<open>a\<close>. From index 1 the best match is 0 and the title \<^verbatim>\<open>a\<close> is returned; from
  index 0 the best match is 1, where there is no title, and \<^verbatim>\<open>None\<close> is returned.
\<close>

theorem image_similarity_returns_title_witness:
  "length (img_links (rebuilt [''east'', ''east'', ''nord''] (Some [''a''])))
     = length (img_vectors (rebuilt [''east'', ''east'', ''nord''] (Some [''a'']))) \<and>
   list_all (\<lambda>v. length v = 2)
     (img_vectors (rebuilt [''east'', ''east'', ''nord''] (Some [''a'']))) \<and>
   best_idx (rebuilt [''east'', ''east'', ''nord''] (Some [''a''])) 1 = Inr 0 \<and>
   image_similarity (rebuilt [''east'', ''east'', ''nord''] (Some [''a''])) 1 =
     Inr ([Display [''east'', ''east'']], Some ''a'') \<and>
   best_idx (rebuilt [''east'', ''east'', ''nord''] (Some [''a''])) 0 = Inr 1 \<and>
   image_similarity (rebuilt [''east'', ''east'', ''nord''] (Some [''a''])) 0 =
     Inr ([Display [''east'', ''east'']], None)"
proof -
  let ?s = "rebuilt [''east'', ''east'', ''nord''] (Some [''a''])"
  have s: "?s = demo_vgg\<lparr>img_links := [''east'', ''east'', ''nord''],
       img_vectors := [[1, 0], [1, 0], [0, 1]], img_titles := [''a'']\<rparr>"
    by (rule rebuilt_demo)
  have inv: "length (img_links ?s) = length (img_vectors ?s)" by (simp add: s)
  have dims: "list_all (\<lambda>v. length v = 2) (img_vectors ?s)" by (simp add: s)
  have b1: "best_idx ?s 1 = Inr 0" and b0: "best_idx ?s 0 = Inr 1"
    by (simp_all add: s best_idx_def py_index_def cosine_similarity_demo argmax_def
        score_gt_def)
  have r1: "(0::int) \<le> 1" "1 < int (length (img_vectors ?s))" by (simp_all add: s)
  have r0: "(0::int) \<le> 0" "0 < int (length (img_vectors ?s))" by (simp_all add: s)
  from image_similarity_returns_title [OF inv r1 dims] obtain b where
    "best_idx ?s 1 = Inr b"
    "image_similarity ?s 1 =
       Inr ([Display [img_links ?s ! nat 1, img_links ?s ! b]],
            if b < length (img_titles ?s) then Some (img_titles ?s ! b) else None)"
    by blast
  with b1 have i1: "image_similarity ?s 1 = Inr ([Display [''east'', ''east'']], Some ''a'')"
    by (simp add: s)
  from image_similarity_returns_title [OF inv r0 dims] obtain b' where
    "best_idx ?s 0 = Inr b'"
    "image_similarity ?s 0 =
       Inr ([Display [img_links ?s ! nat 0, img_links ?s ! b']],
            if b' < length (img_titles ?s) then Some (img_titles ?s ! b') else None)"
    by blast
  with b0 have i0: "image_similarity ?s 0 = Inr ([Display [''east'', ''east'']], None)"
    by (simp add: s)
  from inv dims b0 b1 i0 i1 show ?thesis by simp
qed

text \<open>
  Claim C7 as stated fails: the best-match index is not returned. The collections
  \<^verbatim>\<open>east\<close>, \<^verbatim>\<open>east\<close>, \<^verbatim>\<open>nord\<close> and \<^verbatim>\<open>east\<close>, \<^verbatim>\<open>nord\<close>, \<^verbatim>\<open>east\<close> have the best matches 1
  and 2 for the reference 0, and \<^verbatim>\<open>image_similarity\<close> gives the same outcome on both: the
  same two images displayed and the value \<^verbatim>\<open>None\<close> returned.
\<close>

theorem best_index_not_returned:
  "best_idx (rebuilt [''east'', ''east'', ''nord''] None) 0 = Inr 1 \<and>
   best_idx (rebuilt [''east'', ''nord'', ''east''] None) 0 = Inr 2 \<and>
   image_similarity (rebuilt [''east'', ''east'', ''nord''] None) 0 =
     Inr ([Display [''east'', ''east'']], None) \<and>
   image_similarity (rebuilt [''east'', ''nord'', ''east''] None) 0 =
     Inr ([Display [''east'', ''east'']], None)"
  by (simp add: rebuilt_demo image_similarity_def best_idx_def py_index_def
      cosine_similarity_demo argmax_def score_gt_def)

end
